theory Spec2Isabelle
  imports Main
begin

section \<open>Data model of package token (src/utils/token/token.go)\<close>

text \<open>
  The Go struct \<^verbatim>\<open>Claims\<close> has the fields \<^verbatim>\<open>Email\<close> and \<^verbatim>\<open>Role\<close> and embeds
  \<^verbatim>\<open>jwt.StandardClaims\<close>, of which the code sets only \<^verbatim>\<open>ExpiresAt\<close> (an int64 of
  Unix seconds, the JSON field \<^verbatim>\<open>exp\<close>). Times are far from the int64 bounds, so
  they are modelled as unbounded integers.
\<close>

record Claims =
  Email :: string
  Role :: string
  ExpiresAt :: int

text \<open>
  The signing methods of the jwt library; the code names only
  \<^verbatim>\<open>jwt.SigningMethodHS256\<close> (HMAC with SHA-256).
\<close>

datatype SigningMethod = SigningMethodHS256 | SigningMethodHS384 | SigningMethodHS512

text \<open>
  The part of \<^verbatim>\<open>jwt.Token\<close> that the code uses: the signing method, the claims
  and the \<^verbatim>\<open>Valid\<close> flag. \<^verbatim>\<open>jwt.NewWithClaims\<close> builds the unsigned token.
\<close>

record Token =
  Method :: SigningMethod
  Claims :: Claims
  Valid :: bool

definition NewWithClaims :: "SigningMethod \<Rightarrow> Claims \<Rightarrow> Token" where
  "NewWithClaims method claims = \<lparr>Method = method, Claims = claims, Valid = False\<rparr>"

text \<open>
  A Go call either returns or panics (a nil pointer dereference here). A pointer that
  may be nil is an \<open>option\<close>, and so is a Go \<^verbatim>\<open>error\<close> value (\<open>None\<close> is nil).
\<close>

datatype 'a go = Return 'a | Panic

text \<open>
  The package-level variables: \<^verbatim>\<open>var JwtToken = []byte("jwtToken")\<close> is the only one.
  Every operation takes the globals and returns them, so that a write would show.
\<close>

record globals =
  JwtToken :: string

definition init_globals :: globals where
  "init_globals = \<lparr>JwtToken = ''jwtToken''\<rparr>"

subsection \<open>Time\<close>

text \<open>
  \<^verbatim>\<open>time.Time\<close> is modelled as nanoseconds since the Unix epoch, \<^verbatim>\<open>time.Duration\<close>
  as nanoseconds; \<^verbatim>\<open>Unix()\<close> is the number of whole seconds.
\<close>

definition Hour :: int where
  "Hour = 3600 * 1000000000"

definition Add :: "int \<Rightarrow> int \<Rightarrow> int" where
  "Add t d = t + d"

definition Unix :: "int \<Rightarrow> int" where
  "Unix t = t div 1000000000"

section \<open>CreateToken and ValidateToken\<close>

text \<open>
  The jwt library is not part of the repository. \<^verbatim>\<open>CreateToken\<close> takes the clock
  reading \<open>now\<close> and the library's \<^verbatim>\<open>token.SignedString(key)\<close> as the parameter
  \<open>sign\<close>; \<^verbatim>\<open>ValidateToken\<close> takes \<^verbatim>\<open>jwt.ParseWithClaims\<close> as the parameter
  \<open>parse\<close>, called with the token string and the key that the key function
  \<^verbatim>\<open>jToken\<close> returns (the library reads the clock itself). The error type is
  whatever the library returns: the code never inspects it.
\<close>

definition CreateToken ::
  "globals \<Rightarrow> (Token \<Rightarrow> string \<Rightarrow> 'e + string) \<Rightarrow> int \<Rightarrow> string \<Rightarrow> string
     \<Rightarrow> (string \<times> 'e option) \<times> globals" where
  "CreateToken g sign now email role =
     (let expTime = Add now (Hour * 12);
          claims = \<lparr>Email = email, Role = role, ExpiresAt = Unix expTime\<rparr>;
          token = NewWithClaims SigningMethodHS256 claims
      in case sign token (JwtToken g) of
           Inl err \<Rightarrow> (([], Some err), g)
         | Inr tokenStr \<Rightarrow> ((tokenStr, None), g))"

definition ValidateToken ::
  "globals \<Rightarrow> (string \<Rightarrow> string \<Rightarrow> Token option \<times> 'e option) \<Rightarrow> string
     \<Rightarrow> (Claims option \<times> 'e option) go \<times> globals" where
  "ValidateToken g parse tokenStr =
     (case parse tokenStr (JwtToken g) of
        (token, Some err) \<Rightarrow> (Return (None, Some err), g)
      | (token, None) \<Rightarrow>
          (case token of
             None \<Rightarrow> (Panic, g)
           | Some t \<Rightarrow>
               if \<not> Valid t then (Return (None, None), g)
               else (Return (Some (Claims t), None), g)))"

section \<open>The handlers that call the token package (src/handler/userHandler.go)\<close>

text \<open>
  The packages \<^verbatim>\<open>entities\<close>, \<^verbatim>\<open>gin\<close> and \<^verbatim>\<open>validator\<close> are not part of the
  sources. Of a user the handlers read the fields \<^verbatim>\<open>Email\<close> and \<^verbatim>\<open>Role\<close>; the
  message constants of \<^verbatim>\<open>entities\<close> are kept symbolic. A handler is modelled by the
  one response it writes with \<^verbatim>\<open>c.JSON(code, obj)\<close>, or by its panic.
\<close>

record User =
  UserEmail :: string
  UserRole :: string

datatype entities_message = InternalServer | BadRequest | Unauthorized

datatype jval = JString string | JMessage entities_message | JUser User | JUsers "User list"

record Response =
  code :: nat
  obj :: "(string \<times> jval) list"

definition StatusOK :: nat where "StatusOK = 200"
definition StatusBadRequest :: nat where "StatusBadRequest = 400"
definition StatusUnauthorized :: nat where "StatusUnauthorized = 401"
definition StatusInternalServerError :: nat where "StatusInternalServerError = 500"

text \<open>
  What \<^verbatim>\<open>c.ShouldBind\<close> can return as its error: the validator's list of field
  errors, or an error of another type (a JSON syntax error, for one).
\<close>

record FieldError =
  Field :: string
  ActualTag :: string

datatype bind_error = ValidationErrors "FieldError list" | OtherBindError

definition errMessage :: "FieldError \<Rightarrow> string" where
  "errMessage v = ''error on field '' @ Field v @ '', condition: '' @ ActualTag v"

text \<open>
  \<^verbatim>\<open>login\<close>: \<open>bind\<close> is the bound request body with the error of
  \<^verbatim>\<open>ShouldBind\<close>, \<open>repoLogin\<close> is \<^verbatim>\<open>u.userRepo.Login\<close>. The type assertion
  \<^verbatim>\<open>err.(validator.ValidationErrors)\<close> panics on an error of another type; the loop
  over the field errors returns at its first element, and falls through when there is
  none. The error of \<^verbatim>\<open>CreateToken\<close> is assigned to the blank identifier.
\<close>

definition login ::
  "globals \<Rightarrow> (Token \<Rightarrow> string \<Rightarrow> 'e + string) \<Rightarrow> int \<Rightarrow> 'l \<times> bind_error option
     \<Rightarrow> ('l \<Rightarrow> 'x + User) \<Rightarrow> Response go" where
  "login g sign now bind repoLogin =
     (case (case snd bind of
              None \<Rightarrow> None
            | Some OtherBindError \<Rightarrow> Some Panic
            | Some (ValidationErrors []) \<Rightarrow> None
            | Some (ValidationErrors (v # vs)) \<Rightarrow>
                Some (Return \<lparr>code = StatusInternalServerError,
                               obj = [(''message'', JString (errMessage v))]\<rparr>)) of
        Some r \<Rightarrow> r
      | None \<Rightarrow>
          (case repoLogin (fst bind) of
             Inl err \<Rightarrow>
               Return \<lparr>code = StatusInternalServerError,
                       obj = [(''message'', JMessage InternalServer)]\<rparr>
           | Inr userLogin \<Rightarrow>
               (let token = fst (fst (CreateToken g sign now (UserEmail userLogin) (UserRole userLogin)))
                in Return \<lparr>code = StatusOK,
                           obj = [(''message'', JString ''user logged in''),
                                  (''token'', JString token),
                                  (''data'', JUser userLogin)]\<rparr>)))"

definition register ::
  "globals \<Rightarrow> (Token \<Rightarrow> string \<Rightarrow> 'e + string) \<Rightarrow> int \<Rightarrow> 'u \<times> bind_error option
     \<Rightarrow> ('u \<Rightarrow> 'x + User) \<Rightarrow> Response go" where
  "register g sign now bind repoRegister =
     (case snd bind of
        Some err \<Rightarrow>
          Return \<lparr>code = StatusBadRequest, obj = [(''message'', JMessage BadRequest)]\<rparr>
      | None \<Rightarrow>
          (case repoRegister (fst bind) of
             Inl err \<Rightarrow>
               Return \<lparr>code = StatusInternalServerError,
                       obj = [(''message'', JMessage InternalServer)]\<rparr>
           | Inr userData \<Rightarrow>
               (let token = fst (fst (CreateToken g sign now (UserEmail userData) (UserRole userData)))
                in Return \<lparr>code = StatusOK,
                           obj = [(''message'', JString ''user registered''),
                                  (''data'', JUser userData),
                                  (''token'', JString token)]\<rparr>)))"

text \<open>
  \<^verbatim>\<open>fetch\<close>: \<open>repoFetch\<close> is the outcome of \<^verbatim>\<open>u.userRepo.Fetch\<close>, \<open>auth\<close> the raw
  \<^verbatim>\<open>Authorization\<close> header. The error of \<^verbatim>\<open>ValidateToken\<close> is assigned to the blank
  identifier, and \<^verbatim>\<open>token.Role\<close> dereferences the claims pointer, nil or not.
\<close>

definition fetch ::
  "globals \<Rightarrow> (string \<Rightarrow> string \<Rightarrow> Token option \<times> 'e option) \<Rightarrow> 'x + User list \<Rightarrow> string
     \<Rightarrow> Response go" where
  "fetch g parse repoFetch auth =
     (case repoFetch of
        Inl err \<Rightarrow>
          Return \<lparr>code = StatusInternalServerError,
                  obj = [(''message'', JMessage InternalServer)]\<rparr>
      | Inr users \<Rightarrow>
          (case fst (ValidateToken g parse auth) of
             Panic \<Rightarrow> Panic
           | Return (token, err) \<Rightarrow>
               (case token of
                  None \<Rightarrow> Panic
                | Some claims \<Rightarrow>
                    if Role claims \<noteq> ''admin''
                    then Return \<lparr>code = StatusUnauthorized,
                                 obj = [(''message'', JMessage Unauthorized)]\<rparr>
                    else Return \<lparr>code = StatusOK,
                                 obj = [(''message'', JString ''users fetched''),
                                        (''users'', JUsers users)]\<rparr>)))"

section \<open>The jwt library, as the spec describes it\<close>

text \<open>
  Modelled from the spec: the library \<^verbatim>\<open>github.com/dgrijalva/jwt-go\<close> is not in the
  sources. The spec names the failure kinds \<^verbatim>\<open>SigningError\<close> (issuance),
  \<^verbatim>\<open>MalformedToken\<close>, \<^verbatim>\<open>SignatureInvalid\<close> and \<^verbatim>\<open>Expired\<close> (verification). It
  asks for \<^verbatim>\<open>SignatureInvalid\<close> whenever the signature does not match and for
  \<^verbatim>\<open>Expired\<close> whenever the time is past the expiry, so an error value is the set of
  the failure kinds that apply.
\<close>

datatype failure = SigningError | MalformedToken | SignatureInvalid | Expired

text \<open>
  Modelled from the spec: the encoding of the header and payload segments (JSON, then
  base64url), their decoding, and the keyed hash that gives the signature segment are
  not in the sources and are parameters. An encoder returns \<open>None\<close> on an internal
  encoding failure, a decoder returns \<open>None\<close> on a segment that does not decode.
\<close>

record primitives =
  encodeHeader :: "SigningMethod \<Rightarrow> string option"
  decodeHeader :: "string \<Rightarrow> SigningMethod option"
  encodeClaims :: "Claims \<Rightarrow> string option"
  decodeClaims :: "string \<Rightarrow> Claims option"
  hmac :: "SigningMethod \<Rightarrow> string \<Rightarrow> string \<Rightarrow> string"

text \<open>
  Modelled from the spec: the segments of a compact token are separated by dots;
  \<open>Split s sep\<close> is the list of the pieces of \<open>s\<close> between the occurrences of \<open>sep\<close>.
\<close>

fun Split :: "string \<Rightarrow> char \<Rightarrow> string list" where
  "Split [] sep = [[]]"
| "Split (c # cs) sep =
     (if c = sep then [] # Split cs sep
      else (case Split cs sep of
              [] \<Rightarrow> [[c]]
            | x # xs \<Rightarrow> (c # x) # xs))"


text \<open>
  Modelled from the spec: validation "parses the compact encoding, verifies the
  signature using the SigningKey, checks standard validity (not-expired, well-formed)":
  it "fails with \<^verbatim>\<open>MalformedToken\<close> if the string cannot be parsed" (not three
  dot-separated segments, or a segment that does not decode), "with
  \<^verbatim>\<open>SignatureInvalid\<close> if the signature does not match", "with \<^verbatim>\<open>Expired\<close> if
  current time is past \<^verbatim>\<open>expiresAt\<close>" (the \<^verbatim>\<open>exp\<close> field, in Unix seconds). The
  clock reading \<open>now\<close> is a parameter. A token comes back valid exactly when no error
  does.
\<close>

definition ParseWithClaims ::
  "primitives \<Rightarrow> int \<Rightarrow> string \<Rightarrow> string \<Rightarrow> Token option \<times> failure set option" where
  "ParseWithClaims P now tokenStr key =
     (case Split tokenStr (CHR ''.'') of
        [h, p, sg] \<Rightarrow>
          (case decodeHeader P h of
             None \<Rightarrow> (None, Some {MalformedToken})
           | Some m \<Rightarrow>
               (case decodeClaims P p of
                  None \<Rightarrow> (None, Some {MalformedToken})
                | Some c \<Rightarrow>
                    (let errs = (if ExpiresAt c < Unix now then {Expired} else {})
                                \<union> (if sg \<noteq> hmac P m key (h @ ''.'' @ p)
                                   then {SignatureInvalid} else {})
                     in if errs = {}
                        then (Some \<lparr>Method = m, Claims = c, Valid = True\<rparr>, None)
                        else (Some \<lparr>Method = m, Claims = c, Valid = False\<rparr>, Some errs))))
      | _ \<Rightarrow> (None, Some {MalformedToken}))"

text \<open>
  A small instance of the primitives, for running the model on concrete inputs. It
  encodes and decodes the one claims value \<open>c0\<close>; it stands in for base64url, JSON
  and HMAC-SHA256 only in that it is a function of the same shape.
\<close>

definition example_primitives :: "Claims \<Rightarrow> primitives" where
  "example_primitives c0 =
     \<lparr>encodeHeader = (\<lambda>m. if m = SigningMethodHS256 then Some ''HS256'' else None),
      decodeHeader = (\<lambda>s. if s = ''HS256'' then Some SigningMethodHS256 else None),
      encodeClaims = (\<lambda>c. if c = c0 then Some ''payload'' else None),
      decodeClaims = (\<lambda>s. if s = ''payload'' then Some c0 else None),
      hmac = (\<lambda>m key msg. filter (\<lambda>ch. ch \<noteq> CHR ''.'') (key @ msg))\<rparr>"


section \<open>Properties of the code with the library as a parameter\<close>

lemma Unix_Add_12h: "Unix (Add now (Hour * 12)) = Unix now + 43200"
proof -
  have "(now + 43200 * 1000000000) div 1000000000 = now div 1000000000 + 43200"
    using div_mult_self3 [of "1000000000::int" now 43200] by (simp add: add.commute)
  then show ?thesis by (simp add: Unix_def Add_def Hour_def)
qed

text \<open>
  Claim C5: \<^verbatim>\<open>CreateToken(email, role)\<close> builds claims whose \<^verbatim>\<open>ExpiresAt\<close> (the
  standard \<^verbatim>\<open>exp\<close> field, in Unix seconds) is the current Unix time plus exactly
  12 hours (43200 seconds), with the given email and role, and has them signed by the
  method HS256 (HMAC-SHA256) under the process-wide key \<^verbatim>\<open>JwtToken\<close>; the outcome
  of that signing step is what it returns.
\<close>

theorem CreateToken_exp_12h_HS256:
  "fst (CreateToken g sign now email role) =
     (case sign \<lparr>Method = SigningMethodHS256,
                 Claims = \<lparr>Email = email, Role = role, ExpiresAt = Unix now + 43200\<rparr>,
                 Valid = False\<rparr> (JwtToken g) of
        Inl err \<Rightarrow> ([], Some err)
      | Inr tokenStr \<Rightarrow> (tokenStr, None))"
  by (simp add: CreateToken_def NewWithClaims_def Unix_Add_12h Let_def split: sum.split)

section \<open>Properties of the handlers\<close>

text \<open>
  Claim C9: in the handler \<^verbatim>\<open>fetch\<close>, once the repository has returned the users,
  a nil claims pointer from \<^verbatim>\<open>ValidateToken\<close> (whatever the discarded error is)
  makes the role check \<^verbatim>\<open>token.Role\<close> dereference nil: the handler panics and
  writes no unauthorized response.
\<close>

theorem fetch_nil_claims_panics:
  "repoFetch = Inr users \<Longrightarrow> fst (ValidateToken g parse auth) = Return (None, err) \<Longrightarrow>
     fetch g parse repoFetch auth = Panic"
  by (simp add: fetch_def)

theorem fetch_nil_claims_panics_witness:
  "(Inr [\<lparr>UserEmail = ''a@example.com'', UserRole = ''admin''\<rparr>] :: unit + User list)
     = Inr [\<lparr>UserEmail = ''a@example.com'', UserRole = ''admin''\<rparr>]
   \<and> fst (ValidateToken init_globals (\<lambda>s k. (None, Some ())) ''garbage'') = Return (None, Some ())
   \<and> fetch init_globals (\<lambda>s k. (None, Some ()))
        (Inr [\<lparr>UserEmail = ''a@example.com'', UserRole = ''admin''\<rparr>] :: unit + User list)
        ''garbage'' = Panic"
proof -
  have v: "fst (ValidateToken init_globals (\<lambda>s k. (None, Some ())) ''garbage'')
             = Return (None, Some ())"
    by (simp add: ValidateToken_def)
  show ?thesis
    using v fetch_nil_claims_panics
      [of "Inr [\<lparr>UserEmail = ''a@example.com'', UserRole = ''admin''\<rparr>] :: unit + User list"
          "[\<lparr>UserEmail = ''a@example.com'', UserRole = ''admin''\<rparr>]"
          init_globals "\<lambda>s k. (None, Some ())" "''garbage''" "Some ()", OF refl v]
    by simp
qed

text \<open>
  Claim C10: \<^verbatim>\<open>login\<close> and \<^verbatim>\<open>register\<close> discard the error of
  \<^verbatim>\<open>CreateToken\<close>. When the request binds without error and the repository returns
  the user, a failure of \<^verbatim>\<open>CreateToken\<close> for that user still gives the response
  with status 200 whose \<^verbatim>\<open>token\<close> field is the empty string; the error is not
  reported.
\<close>

theorem login_register_discard_signing_error:
  "snd (fst (CreateToken g sign now (UserEmail u) (UserRole u))) = Some err \<Longrightarrow>
   snd bindL = None \<Longrightarrow> repoLogin (fst bindL) = Inr u \<Longrightarrow>
   snd bindR = None \<Longrightarrow> repoRegister (fst bindR) = Inr u \<Longrightarrow>
     login g sign now bindL repoLogin =
       Return \<lparr>code = 200,
               obj = [(''message'', JString ''user logged in''),
                      (''token'', JString []),
                      (''data'', JUser u)]\<rparr>
     \<and> register g sign now bindR repoRegister =
       Return \<lparr>code = 200,
               obj = [(''message'', JString ''user registered''),
                      (''data'', JUser u),
                      (''token'', JString [])]\<rparr>"
  by (auto simp: login_def register_def CreateToken_def StatusOK_def Let_def
           split: sum.splits)

theorem login_register_discard_signing_error_witness:
  "snd (fst (CreateToken init_globals (\<lambda>t k. Inl () :: unit + string) 5
        (UserEmail \<lparr>UserEmail = ''a@example.com'', UserRole = ''admin''\<rparr>)
        (UserRole \<lparr>UserEmail = ''a@example.com'', UserRole = ''admin''\<rparr>))) = Some ()
   \<and> snd ((), None :: bind_error option) = None
   \<and> (\<lambda>l. Inr \<lparr>UserEmail = ''a@example.com'', UserRole = ''admin''\<rparr> :: unit + User)
         (fst ((), None :: bind_error option))
       = Inr \<lparr>UserEmail = ''a@example.com'', UserRole = ''admin''\<rparr>
   \<and> login init_globals (\<lambda>t k. Inl () :: unit + string) 5 ((), None)
         (\<lambda>l. Inr \<lparr>UserEmail = ''a@example.com'', UserRole = ''admin''\<rparr> :: unit + User) =
       Return \<lparr>code = 200,
               obj = [(''message'', JString ''user logged in''),
                      (''token'', JString []),
                      (''data'', JUser \<lparr>UserEmail = ''a@example.com'', UserRole = ''admin''\<rparr>)]\<rparr>
   \<and> register init_globals (\<lambda>t k. Inl () :: unit + string) 5 ((), None)
         (\<lambda>l. Inr \<lparr>UserEmail = ''a@example.com'', UserRole = ''admin''\<rparr> :: unit + User) =
       Return \<lparr>code = 200,
               obj = [(''message'', JString ''user registered''),
                      (''data'', JUser \<lparr>UserEmail = ''a@example.com'', UserRole = ''admin''\<rparr>),
                      (''token'', JString [])]\<rparr>"
proof -
  have c: "snd (fst (CreateToken init_globals (\<lambda>t k. Inl () :: unit + string) 5
        (UserEmail \<lparr>UserEmail = ''a@example.com'', UserRole = ''admin''\<rparr>)
        (UserRole \<lparr>UserEmail = ''a@example.com'', UserRole = ''admin''\<rparr>))) = Some ()"
    by (simp add: CreateToken_def)
  show ?thesis
    using c login_register_discard_signing_error
      [of init_globals "\<lambda>t k. Inl () :: unit + string" 5
          "\<lparr>UserEmail = ''a@example.com'', UserRole = ''admin''\<rparr>" "()"
          "((), None)" "\<lambda>l. Inr \<lparr>UserEmail = ''a@example.com'', UserRole = ''admin''\<rparr> :: unit + User"
          "((), None)" "\<lambda>l. Inr \<lparr>UserEmail = ''a@example.com'', UserRole = ''admin''\<rparr> :: unit + User",
       OF c]
    by simp
qed

section \<open>ValidateToken over the library as the spec describes it\<close>




lemma Split_nonempty: "Split s sep \<noteq> []"
  by (induction s) (auto split: list.splits)

lemma ValidateToken_wellformed:
  assumes "Split s (CHR ''.'') = [h, p, sg]"
    and "decodeHeader P h = Some m" and "decodeClaims P p = Some c"
  shows "fst (ValidateToken g (ParseWithClaims P now) s) =
     (if ExpiresAt c < Unix now \<or> sg \<noteq> hmac P m (JwtToken g) (h @ ''.'' @ p)
      then Return (None, Some ((if ExpiresAt c < Unix now then {Expired} else {})
                     \<union> (if sg \<noteq> hmac P m (JwtToken g) (h @ ''.'' @ p)
                        then {SignatureInvalid} else {})))
      else Return (Some c, None))"
  using assms by (simp add: ValidateToken_def ParseWithClaims_def)

lemma ValidateToken_malformed:
  assumes "length (Split s (CHR ''.'')) \<noteq> 3
           \<or> decodeHeader P (Split s (CHR ''.'') ! 0) = None
           \<or> decodeClaims P (Split s (CHR ''.'') ! 1) = None"
  shows "fst (ValidateToken g (ParseWithClaims P now) s) = Return (None, Some {MalformedToken})"
  using assms
  by (auto simp: ValidateToken_def ParseWithClaims_def split: list.splits option.splits)

lemma ValidateToken_spec_no_panic:
  "fst (ValidateToken g (ParseWithClaims P now) s) \<noteq> Panic"
  by (auto simp: ValidateToken_def ParseWithClaims_def Let_def split: list.splits option.splits)

lemma Split_length_three:
  "length (Split s sep) = 3 \<Longrightarrow>
     Split s sep = [Split s sep ! 0, Split s sep ! 1, Split s sep ! 2]"
  by (cases "Split s sep" rule: list.exhaust; simp)
     (metis (no_types, lifting) One_nat_def Suc_length_conv length_0_conv nth_Cons_0 nth_Cons_Suc numeral_2_eq_2)

lemma ValidateToken_wellformed_not_malformed:
  assumes "Split s (CHR ''.'') = [h, p, sg]"
    and "decodeHeader P h = Some m" and "decodeClaims P p = Some c"
  shows "fst (ValidateToken g (ParseWithClaims P now) s) \<noteq> Return (None, Some {MalformedToken})"
  using ValidateToken_wellformed [OF assms, of g now] by auto

lemma ValidateToken_spec_not_nil_nil:
  "fst (ValidateToken g (ParseWithClaims P now) s) \<noteq> Return (None, None)"
  by (auto simp: ValidateToken_def ParseWithClaims_def Let_def split: list.splits option.splits)

lemma ValidateToken_nil_nil_iff:
  "fst (ValidateToken g parse tokenStr) = Return (None, None)
     \<longleftrightarrow> (\<exists>t. parse tokenStr (JwtToken g) = (Some t, None) \<and> \<not> Valid t)"
  by (auto simp: ValidateToken_def split: prod.splits option.splits)


text \<open>
  Claim C4, as amended: \<^verbatim>\<open>ValidateToken\<close> returns normally with exactly the error
  \<^verbatim>\<open>MalformedToken\<close> and no claims on every string that is not three dot-separated
  segments or whose header or payload segment does not decode, and on no other string;
  and on no input at all does \<^verbatim>\<open>ValidateToken\<close> panic. A defect of the signature
  segment alone is not reported as \<^verbatim>\<open>MalformedToken\<close>.
\<close>

theorem malformed_token_fails_without_panic:
  "(fst (ValidateToken g (ParseWithClaims P now) s) = Return (None, Some {MalformedToken})
      \<longleftrightarrow> (length (Split s (CHR ''.'')) \<noteq> 3
           \<or> decodeHeader P (Split s (CHR ''.'') ! 0) = None
           \<or> decodeClaims P (Split s (CHR ''.'') ! 1) = None))
   \<and> fst (ValidateToken g (ParseWithClaims P now) s) \<noteq> Panic"
proof (intro conjI iffI)
  assume r: "fst (ValidateToken g (ParseWithClaims P now) s) = Return (None, Some {MalformedToken})"
  show "length (Split s (CHR ''.'')) \<noteq> 3
           \<or> decodeHeader P (Split s (CHR ''.'') ! 0) = None
           \<or> decodeClaims P (Split s (CHR ''.'') ! 1) = None"
  proof (rule ccontr)
    assume "\<not> ?thesis"
    then have l: "length (Split s (CHR ''.'')) = 3"
      and h: "decodeHeader P (Split s (CHR ''.'') ! 0) \<noteq> None"
      and p: "decodeClaims P (Split s (CHR ''.'') ! 1) \<noteq> None"
      by simp_all
    from h obtain m where m: "decodeHeader P (Split s (CHR ''.'') ! 0) = Some m" by blast
    from p obtain c where c: "decodeClaims P (Split s (CHR ''.'') ! 1) = Some c" by blast
    from ValidateToken_wellformed_not_malformed [OF Split_length_three [OF l] m c] r
    show False by blast
  qed
next
  assume "length (Split s (CHR ''.'')) \<noteq> 3
           \<or> decodeHeader P (Split s (CHR ''.'') ! 0) = None
           \<or> decodeClaims P (Split s (CHR ''.'') ! 1) = None"
  then show "fst (ValidateToken g (ParseWithClaims P now) s) = Return (None, Some {MalformedToken})"
    by (rule ValidateToken_malformed)
next
  show "fst (ValidateToken g (ParseWithClaims P now) s) \<noteq> Panic"
    by (rule ValidateToken_spec_no_panic)
qed

theorem malformed_token_fails_without_panic_witness:
  "length (Split ''not a token'' (CHR ''.'')) \<noteq> 3
   \<and> fst (ValidateToken init_globals
         (ParseWithClaims (example_primitives \<lparr>Email = ''a@example.com'', Role = ''admin'', ExpiresAt = 43200\<rparr>) 5)
         ''not a token'') = Return (None, Some {MalformedToken})
   \<and> fst (ValidateToken init_globals
         (ParseWithClaims (example_primitives \<lparr>Email = ''a@example.com'', Role = ''admin'', ExpiresAt = 43200\<rparr>) 5)
         ''not a token'') \<noteq> Panic"
proof -
  have l: "length (Split ''not a token'' (CHR ''.'')) \<noteq> 3" by simp
  show ?thesis
    using l malformed_token_fails_without_panic
      [of init_globals
          "example_primitives \<lparr>Email = ''a@example.com'', Role = ''admin'', ExpiresAt = 43200\<rparr>"
          5 "''not a token''"]
    by blast
qed

text \<open>
  The statement for every segment fails: a token whose header and payload decode and
  whose signature segment \<^verbatim>\<open>!!!\<close> no decoder accepts is answered with
  \<^verbatim>\<open>SignatureInvalid\<close>.
\<close>

theorem undecodable_signature_counterexample:
  "Split ''HS256.payload.!!!'' (CHR ''.'') = [''HS256'', ''payload'', ''!!!'']
   \<and> decodeHeader (example_primitives \<lparr>Email = ''a@example.com'', Role = ''admin'', ExpiresAt = 43200\<rparr>)
        ''!!!'' = None
   \<and> decodeClaims (example_primitives \<lparr>Email = ''a@example.com'', Role = ''admin'', ExpiresAt = 43200\<rparr>)
        ''!!!'' = None
   \<and> fst (ValidateToken init_globals
         (ParseWithClaims (example_primitives \<lparr>Email = ''a@example.com'', Role = ''admin'', ExpiresAt = 43200\<rparr>) 5)
         ''HS256.payload.!!!'') = Return (None, Some {SignatureInvalid})
   \<and> fst (ValidateToken init_globals
         (ParseWithClaims (example_primitives \<lparr>Email = ''a@example.com'', Role = ''admin'', ExpiresAt = 43200\<rparr>) 5)
         ''HS256.payload.!!!'') \<noteq> Return (None, Some {MalformedToken})"
  by (simp add: ValidateToken_def ParseWithClaims_def example_primitives_def init_globals_def Unix_def)

text \<open>
  Claim C6: a well-formed token whose \<^verbatim>\<open>expiresAt\<close> is strictly before the time of
  validation (in the Unix seconds of the \<^verbatim>\<open>exp\<close> field) fails with \<^verbatim>\<open>Expired\<close>
  and yields no claims, also when its signature is the right one for the key: then
  \<^verbatim>\<open>Expired\<close> is the whole error.
\<close>

theorem expired_token_fails:
  "Split s (CHR ''.'') = [h, p, sg] \<Longrightarrow> decodeHeader P h = Some m \<Longrightarrow>
   decodeClaims P p = Some c \<Longrightarrow> ExpiresAt c < Unix now \<Longrightarrow>
     fst (ValidateToken g (ParseWithClaims P now) s) =
       Return (None, Some ({Expired} \<union> (if sg \<noteq> hmac P m (JwtToken g) (h @ ''.'' @ p)
                                        then {SignatureInvalid} else {})))"
  by (simp add: ValidateToken_wellformed)

theorem expired_token_fails_witness:
  "Split ''HS256.payload.jwtTokenHS256payload'' (CHR ''.'')
     = [''HS256'', ''payload'', ''jwtTokenHS256payload'']
   \<and> decodeHeader (example_primitives \<lparr>Email = ''a@example.com'', Role = ''admin'', ExpiresAt = 43200\<rparr>)
         ''HS256'' = Some SigningMethodHS256
   \<and> decodeClaims (example_primitives \<lparr>Email = ''a@example.com'', Role = ''admin'', ExpiresAt = 43200\<rparr>)
         ''payload'' = Some \<lparr>Email = ''a@example.com'', Role = ''admin'', ExpiresAt = 43200\<rparr>
   \<and> ExpiresAt \<lparr>Email = ''a@example.com'', Role = ''admin'', ExpiresAt = 43200\<rparr>
         < Unix 46800000000005
   \<and> fst (ValidateToken init_globals
         (ParseWithClaims (example_primitives \<lparr>Email = ''a@example.com'', Role = ''admin'', ExpiresAt = 43200\<rparr>)
            46800000000005)
         ''HS256.payload.jwtTokenHS256payload'') = Return (None, Some {Expired})"
proof -
  let ?c = "\<lparr>Email = ''a@example.com'', Role = ''admin'', ExpiresAt = 43200\<rparr>"
  have s: "Split ''HS256.payload.jwtTokenHS256payload'' (CHR ''.'')
             = [''HS256'', ''payload'', ''jwtTokenHS256payload'']"
    by simp
  have h: "decodeHeader (example_primitives ?c) ''HS256'' = Some SigningMethodHS256"
    by (simp add: example_primitives_def)
  have p: "decodeClaims (example_primitives ?c) ''payload'' = Some ?c"
    by (simp add: example_primitives_def)
  have e: "ExpiresAt ?c < Unix 46800000000005"
    by (simp add: Unix_def)
  show ?thesis
    using s h p e expired_token_fails [OF s h p e, of init_globals]
    by (simp add: example_primitives_def init_globals_def)
qed







text \<open>
  Claim C2: every failure of verification gives an error that tells the failure kind.
  A string that does not parse as a compact token gives exactly \<^verbatim>\<open>MalformedToken\<close>.
  A token that parses gives an error holding \<^verbatim>\<open>SignatureInvalid\<close> when its signature
  does not match the key, and an error holding \<^verbatim>\<open>Expired\<close> when the time is past its
  expiry; such an error never holds \<^verbatim>\<open>MalformedToken\<close>, and it holds the other of the
  two kinds exactly when that failure occurred as well. \<^verbatim>\<open>ValidateToken\<close> hands the
  library's error on unchanged.
\<close>

theorem ValidateToken_error_per_failure_kind:
  "(length (Split s (CHR ''.'')) \<noteq> 3
      \<or> decodeHeader P (Split s (CHR ''.'') ! 0) = None
      \<or> decodeClaims P (Split s (CHR ''.'') ! 1) = None
    \<longrightarrow> fst (ValidateToken g (ParseWithClaims P now) s) = Return (None, Some {MalformedToken}))
   \<and> (Split s' (CHR ''.'') = [h, p, sg] \<and> decodeHeader P h = Some m \<and> decodeClaims P p = Some c
       \<longrightarrow>
       (sg \<noteq> hmac P m (JwtToken g) (h @ ''.'' @ p) \<longrightarrow>
          (\<exists>E. fst (ValidateToken g (ParseWithClaims P now) s') = Return (None, Some E)
               \<and> SignatureInvalid \<in> E \<and> MalformedToken \<notin> E
               \<and> (Expired \<in> E \<longleftrightarrow> ExpiresAt c < Unix now)))
       \<and> (ExpiresAt c < Unix now \<longrightarrow>
          (\<exists>E. fst (ValidateToken g (ParseWithClaims P now) s') = Return (None, Some E)
               \<and> Expired \<in> E \<and> MalformedToken \<notin> E
               \<and> (SignatureInvalid \<in> E \<longleftrightarrow> sg \<noteq> hmac P m (JwtToken g) (h @ ''.'' @ p)))))"
proof (intro conjI impI)
  assume "length (Split s (CHR ''.'')) \<noteq> 3
      \<or> decodeHeader P (Split s (CHR ''.'') ! 0) = None
      \<or> decodeClaims P (Split s (CHR ''.'') ! 1) = None"
  then show "fst (ValidateToken g (ParseWithClaims P now) s) = Return (None, Some {MalformedToken})"
    by (rule ValidateToken_malformed)
next
  assume w: "Split s' (CHR ''.'') = [h, p, sg] \<and> decodeHeader P h = Some m \<and> decodeClaims P p = Some c"
    and "sg \<noteq> hmac P m (JwtToken g) (h @ ''.'' @ p)"
  then show "\<exists>E. fst (ValidateToken g (ParseWithClaims P now) s') = Return (None, Some E)
               \<and> SignatureInvalid \<in> E \<and> MalformedToken \<notin> E
               \<and> (Expired \<in> E \<longleftrightarrow> ExpiresAt c < Unix now)"
    by (simp add: ValidateToken_wellformed [of s' h p sg P m c g now])
next
  assume w: "Split s' (CHR ''.'') = [h, p, sg] \<and> decodeHeader P h = Some m \<and> decodeClaims P p = Some c"
    and "ExpiresAt c < Unix now"
  then show "\<exists>E. fst (ValidateToken g (ParseWithClaims P now) s') = Return (None, Some E)
               \<and> Expired \<in> E \<and> MalformedToken \<notin> E
               \<and> (SignatureInvalid \<in> E \<longleftrightarrow> sg \<noteq> hmac P m (JwtToken g) (h @ ''.'' @ p))"
    by (simp add: ValidateToken_wellformed [of s' h p sg P m c g now])
qed


theorem ValidateToken_error_per_failure_kind_witness:
  "length (Split ''not a token'' (CHR ''.'')) \<noteq> 3
   \<and> fst (ValidateToken init_globals
         (ParseWithClaims (example_primitives \<lparr>Email = ''a@example.com'', Role = ''admin'', ExpiresAt = 43200\<rparr>)
            46800000000005)
         ''not a token'') = Return (None, Some {MalformedToken})
   \<and> Split ''HS256.payload.jwtTokenHS256payloae'' (CHR ''.'')
         = [''HS256'', ''payload'', ''jwtTokenHS256payloae'']
   \<and> decodeHeader (example_primitives \<lparr>Email = ''a@example.com'', Role = ''admin'', ExpiresAt = 43200\<rparr>)
         ''HS256'' = Some SigningMethodHS256
   \<and> decodeClaims (example_primitives \<lparr>Email = ''a@example.com'', Role = ''admin'', ExpiresAt = 43200\<rparr>)
         ''payload'' = Some \<lparr>Email = ''a@example.com'', Role = ''admin'', ExpiresAt = 43200\<rparr>
   \<and> ''jwtTokenHS256payloae''
         \<noteq> hmac (example_primitives \<lparr>Email = ''a@example.com'', Role = ''admin'', ExpiresAt = 43200\<rparr>)
             SigningMethodHS256 (JwtToken init_globals) (''HS256'' @ ''.'' @ ''payload'')
   \<and> ExpiresAt \<lparr>Email = ''a@example.com'', Role = ''admin'', ExpiresAt = 43200\<rparr>
         < Unix 46800000000005
   \<and> fst (ValidateToken init_globals
         (ParseWithClaims (example_primitives \<lparr>Email = ''a@example.com'', Role = ''admin'', ExpiresAt = 43200\<rparr>)
            46800000000005)
         ''HS256.payload.jwtTokenHS256payloae'') = Return (None, Some {Expired, SignatureInvalid})"
proof -
  let ?c = "\<lparr>Email = ''a@example.com'', Role = ''admin'', ExpiresAt = 43200\<rparr>"
  let ?P = "example_primitives ?c"
  let ?r = "fst (ValidateToken init_globals (ParseWithClaims ?P 46800000000005)
                  ''HS256.payload.jwtTokenHS256payloae'')"
  have l: "length (Split ''not a token'' (CHR ''.'')) \<noteq> 3" by simp
  have s: "Split ''HS256.payload.jwtTokenHS256payloae'' (CHR ''.'')
             = [''HS256'', ''payload'', ''jwtTokenHS256payloae'']"
    by simp
  have h: "decodeHeader ?P ''HS256'' = Some SigningMethodHS256"
    by (simp add: example_primitives_def)
  have p: "decodeClaims ?P ''payload'' = Some ?c"
    by (simp add: example_primitives_def)
  have m: "''jwtTokenHS256payloae''
         \<noteq> hmac ?P SigningMethodHS256 (JwtToken init_globals) (''HS256'' @ ''.'' @ ''payload'')"
    by (simp add: example_primitives_def init_globals_def)
  have e: "ExpiresAt ?c < Unix 46800000000005"
    by (simp add: Unix_def)
  note k = ValidateToken_error_per_failure_kind
      [of "''not a token''" ?P init_globals 46800000000005
          "''HS256.payload.jwtTokenHS256payloae''" "''HS256''" "''payload''"
          "''jwtTokenHS256payloae''" SigningMethodHS256 ?c]
  have k1: "fst (ValidateToken init_globals (ParseWithClaims ?P 46800000000005) ''not a token'')
              = Return (None, Some {MalformedToken})"
    using k l by blast
  obtain E where E: "?r = Return (None, Some E)" "SignatureInvalid \<in> E" "MalformedToken \<notin> E"
      "Expired \<in> E"
    using k s h p m e by blast
  have "E = {Expired, SignatureInvalid}"
  proof -
    have "x \<in> E \<longleftrightarrow> x \<in> {Expired, SignatureInvalid}" for x
      using E ValidateToken_wellformed [OF s h p, of init_globals 46800000000005] m e
      by (cases x) auto
    then show ?thesis by blast
  qed
  with E(1) have k2: "?r = Return (None, Some {Expired, SignatureInvalid})" by simp
  show ?thesis using l k1 s h p m e k2 by blast
qed

text \<open>
  Claim C3, as amended: \<^verbatim>\<open>ValidateToken\<close> returns a nil claims pointer together with
  a nil error exactly when the parser hands back a token with \<^verbatim>\<open>Valid = false\<close> and
  no error, which is the branch \<^verbatim>\<open>if !token.Valid\<close>; with the parser as the spec
  describes it, where a token is invalid only together with an error, no input reaches
  that branch.
\<close>

theorem ValidateToken_nil_nil_only_invalid_branch:
  "(fst (ValidateToken g parse tokenStr) = Return (None, None)
      \<longleftrightarrow> (\<exists>t. parse tokenStr (JwtToken g) = (Some t, None) \<and> \<not> Valid t))
   \<and> fst (ValidateToken g (ParseWithClaims P now) s) \<noteq> Return (None, None)"
  using ValidateToken_nil_nil_iff [of g parse tokenStr] ValidateToken_spec_not_nil_nil [of g P now s]
  by blast

theorem ValidateToken_nil_nil_only_invalid_branch_witness:
  "(fst (ValidateToken init_globals
        (\<lambda>s k. (Some (NewWithClaims SigningMethodHS256 \<lparr>Email = ''a'', Role = ''b'', ExpiresAt = 0\<rparr>),
                 None :: unit option)) ''x.y.z'') = Return (None, None))
   \<and> (\<exists>t. (\<lambda>s k. (Some (NewWithClaims SigningMethodHS256 \<lparr>Email = ''a'', Role = ''b'', ExpiresAt = 0\<rparr>),
                 None :: unit option)) ''x.y.z'' (JwtToken init_globals) = (Some t, None) \<and> \<not> Valid t)
   \<and> fst (ValidateToken init_globals
        (ParseWithClaims (example_primitives \<lparr>Email = ''a@example.com'', Role = ''admin'', ExpiresAt = 43200\<rparr>) 5)
        ''x.y.z'') = Return (None, Some {MalformedToken})"
proof -
  let ?stub = "\<lambda>s k. (Some (NewWithClaims SigningMethodHS256 \<lparr>Email = ''a'', Role = ''b'', ExpiresAt = 0\<rparr>),
                 None :: unit option)"
  let ?P = "example_primitives \<lparr>Email = ''a@example.com'', Role = ''admin'', ExpiresAt = 43200\<rparr>"
  have t: "\<exists>t. ?stub ''x.y.z'' (JwtToken init_globals) = (Some t, None) \<and> \<not> Valid t"
    by (simp add: NewWithClaims_def)
  have m: "fst (ValidateToken init_globals (ParseWithClaims ?P 5) ''x.y.z'')
             = Return (None, Some {MalformedToken})"
    by (simp add: ValidateToken_def ParseWithClaims_def example_primitives_def)
  show ?thesis
    using t m ValidateToken_nil_nil_only_invalid_branch
      [of init_globals ?stub "''x.y.z''" ?P 5 "''x.y.z''"]
    by blast
qed

text \<open>
  No token string, key state or clock reading makes \<^verbatim>\<open>ValidateToken\<close> return nil
  claims with a nil error.
\<close>

theorem ValidateToken_nil_nil_counterexample:
  "\<not> (\<exists>g P now tokenStr.
         fst (ValidateToken g (ParseWithClaims P now) tokenStr) = Return (None, None))"
  using ValidateToken_spec_not_nil_nil by blast

end
